theory Spec2Isabelle
  imports Complex_Main "HOL-Library.Sublist"
begin

section \<open>JavaScript values\<close>

text \<open>
  A Number is modelled by the value it denotes: a rational, or one of the three special
  values. Every finite double is a rational and the order of doubles is the order of
  these rationals; \<open>-0\<close> and \<open>+0\<close> are one value (they compare equal and print alike).
  The rounding of a decimal literal to the nearest double is not modelled: a parsed
  literal denotes its exact value.
\<close>

datatype jsnum = NaN | NegInf | Fin rat | PosInf

text \<open>
  The values that \<open>JSON.parse\<close> and a missing property can produce. An object is the
  list of its own properties, each key once.
\<close>

datatype jsval =
    JUndefined
  | JNull
  | JBool bool
  | JNum jsnum
  | JStr string
  | JArr "jsval list"
  | JObj "(string \<times> jsval) list"

datatype js_error =
    TypeError
  | StoreError string
  | CronError string

text \<open>ToBoolean: what \<open>!x\<close> and \<open>x || y\<close> test.\<close>

fun truthy :: "jsval \<Rightarrow> bool" where
  "truthy JUndefined = False"
| "truthy JNull = False"
| "truthy (JBool b) = b"
| "truthy (JNum n) = (n \<noteq> NaN \<and> n \<noteq> Fin 0)"
| "truthy (JStr s) = (s \<noteq> [])"
| "truthy (JArr xs) = True"
| "truthy (JObj kvs) = True"

fun join_comma :: "string list \<Rightarrow> string" where
  "join_comma [] = []"
| "join_comma [x] = x"
| "join_comma (x # y # r) = x @ '','' @ join_comma (y # r)"

text \<open>
  ToString, as a template literal applies it. \<open>Number::toString\<close> (the shortest decimal
  that reads back as the same double) is the language's and is taken as the parameter
  \<open>ns\<close>. An array prints its elements joined by commas, \<open>undefined\<close> and \<open>null\<close>
  elements as the empty string.
\<close>

fun ToString :: "(jsnum \<Rightarrow> string) \<Rightarrow> jsval \<Rightarrow> string" where
  "ToString ns JUndefined = ''undefined''"
| "ToString ns JNull = ''null''"
| "ToString ns (JBool b) = (if b then ''true'' else ''false'')"
| "ToString ns (JNum n) = ns n"
| "ToString ns (JStr s) = s"
| "ToString ns (JArr xs) =
     join_comma (map (\<lambda>x. if x = JUndefined \<or> x = JNull then [] else ToString ns x) xs)"
| "ToString ns (JObj kvs) = ''[object Object]''"

subsection \<open>Numeric literals in strings\<close>

definition is_digit :: "char \<Rightarrow> bool" where
  "is_digit c = (c \<in> set ''0123456789'')"

text \<open>Strings are byte strings; the white space a conversion skips is the ASCII white space.\<close>

definition is_space :: "char \<Rightarrow> bool" where
  "is_space c = (c \<in> {CHR 0x09, CHR 0x0A, CHR 0x0B, CHR 0x0C, CHR 0x0D, CHR '' ''})"

definition digit_val :: "char \<Rightarrow> nat" where
  "digit_val c = of_char c - 48"

definition digits_value :: "string \<Rightarrow> nat" where
  "digits_value cs = foldl (\<lambda>a c. 10 * a + digit_val c) 0 cs"

definition take_sign :: "string \<Rightarrow> bool \<times> string" where
  "take_sign cs =
     (case cs of
        [] \<Rightarrow> (False, [])
      | c # r \<Rightarrow> if c = CHR ''-'' then (True, r) else if c = CHR ''+'' then (False, r) else (False, cs))"

fun negate :: "bool \<Rightarrow> jsnum \<Rightarrow> jsnum" where
  "negate False n = n"
| "negate True NaN = NaN"
| "negate True NegInf = PosInf"
| "negate True PosInf = NegInf"
| "negate True (Fin q) = Fin (- q)"

definition scale10 :: "rat \<Rightarrow> bool \<Rightarrow> nat \<Rightarrow> rat" where
  "scale10 q neg e = (if neg then q / 10 ^ e else q * 10 ^ e)"

text \<open>
  The exponent part \<open>e\<close>, \<open>e+\<close> or \<open>e-\<close> followed by at least one digit; without a
  digit the \<open>e\<close> is not part of the literal.
\<close>

definition exponent_part :: "string \<Rightarrow> (bool \<times> nat) \<times> string" where
  "exponent_part cs =
     (case cs of
        [] \<Rightarrow> ((False, 0), [])
      | c # t \<Rightarrow>
          if c = CHR ''e'' \<or> c = CHR ''E'' then
            (let (neg, t') = take_sign t; ds = takeWhile is_digit t'
             in if ds = [] then ((False, 0), cs)
                else ((neg, digits_value ds), dropWhile is_digit t'))
          else ((False, 0), cs))"

text \<open>
  The longest prefix that is a StrUnsignedDecimalLiteral (\<open>Infinity\<close>, \<open>12\<close>, \<open>12.\<close>,
  \<open>12.5\<close>, \<open>.5\<close>, each but the first with an optional exponent), its value and the rest
  of the string; \<open>None\<close> when no prefix is one.
\<close>

definition unsigned_decimal_prefix :: "string \<Rightarrow> (jsnum \<times> string) option" where
  "unsigned_decimal_prefix cs =
     (if prefix ''Infinity'' cs then Some (PosInf, drop 8 cs)
      else
        let ds1 = takeWhile is_digit cs;
            r1 = dropWhile is_digit cs;
            (ds2, r2) =
              (case r1 of
                 [] \<Rightarrow> ([], [])
               | c # t \<Rightarrow>
                   if c = CHR ''.'' \<and> (ds1 \<noteq> [] \<or> takeWhile is_digit t \<noteq> [])
                   then (takeWhile is_digit t, dropWhile is_digit t)
                   else ([], r1))
        in if ds1 = [] \<and> ds2 = [] then None
           else
             let ((neg, e), r3) = exponent_part r2;
                 m = rat_of_nat (digits_value ds1)
                     + rat_of_nat (digits_value ds2) / 10 ^ length ds2
             in Some (Fin (scale10 m neg e), r3))"

text \<open>\<open>parseFloat\<close> of a string: leading white space is skipped, what follows the literal is ignored.\<close>

definition parseFloat_string :: "string \<Rightarrow> jsnum" where
  "parseFloat_string s =
     (let (neg, r) = take_sign (dropWhile is_space s)
      in case unsigned_decimal_prefix r of
           None \<Rightarrow> NaN
         | Some (v, rest) \<Rightarrow> negate neg v)"

text \<open>
  \<open>parseFloat(x)\<close> parses \<open>ToString(x)\<close>. A Number prints as a literal that reads back as
  itself, so on a Number \<open>parseFloat\<close> is the identity.
\<close>

fun parseFloat :: "(jsnum \<Rightarrow> string) \<Rightarrow> jsval \<Rightarrow> jsnum" where
  "parseFloat ns (JNum n) = n"
| "parseFloat ns v = parseFloat_string (ToString ns v)"

definition trim :: "string \<Rightarrow> string" where
  "trim s = rev (dropWhile is_space (rev (dropWhile is_space s)))"

definition radix_digit :: "char \<Rightarrow> nat option" where
  "radix_digit c =
     (let n = (of_char c :: nat)
      in if 48 \<le> n \<and> n \<le> 57 then Some (n - 48)
         else if 97 \<le> n \<and> n \<le> 102 then Some (n - 87)
         else if 65 \<le> n \<and> n \<le> 70 then Some (n - 55)
         else None)"

definition radix_literal :: "nat \<Rightarrow> string \<Rightarrow> jsnum" where
  "radix_literal b ds =
     (if ds \<noteq> [] \<and> list_all (\<lambda>c. case radix_digit c of None \<Rightarrow> False | Some d \<Rightarrow> d < b) ds
      then Fin (rat_of_nat
             (foldl (\<lambda>a c. b * a + (case radix_digit c of None \<Rightarrow> 0 | Some d \<Rightarrow> d)) 0 ds))
      else NaN)"

text \<open>
  StringToNumber, the conversion a comparison with a Number applies to a string: the
  whole trimmed string must be one literal (decimal, or unsigned \<open>0x\<close>, \<open>0o\<close>, \<open>0b\<close>);
  the empty string is 0.
\<close>

definition StringToNumber :: "string \<Rightarrow> jsnum" where
  "StringToNumber s =
     (let t = trim s
      in if t = [] then Fin 0
         else if prefix ''0x'' t \<or> prefix ''0X'' t then radix_literal 16 (drop 2 t)
         else if prefix ''0o'' t \<or> prefix ''0O'' t then radix_literal 8 (drop 2 t)
         else if prefix ''0b'' t \<or> prefix ''0B'' t then radix_literal 2 (drop 2 t)
         else
           let (neg, r) = take_sign t
           in case unsigned_decimal_prefix r of
                Some (v, []) \<Rightarrow> negate neg v
              | _ \<Rightarrow> NaN)"

text \<open>ToNumber; an array or object is first converted to its string.\<close>

fun ToNumber :: "(jsnum \<Rightarrow> string) \<Rightarrow> jsval \<Rightarrow> jsnum" where
  "ToNumber ns JUndefined = NaN"
| "ToNumber ns JNull = Fin 0"
| "ToNumber ns (JBool b) = Fin (if b then 1 else 0)"
| "ToNumber ns (JNum n) = n"
| "ToNumber ns (JStr s) = StringToNumber s"
| "ToNumber ns v = StringToNumber (ToString ns v)"

text \<open>The order of Numbers: every comparison with \<open>NaN\<close> is false.\<close>

fun num_less :: "jsnum \<Rightarrow> jsnum \<Rightarrow> bool" where
  "num_less NaN y = False"
| "num_less x NaN = False"
| "num_less NegInf NegInf = False"
| "num_less NegInf y = True"
| "num_less x NegInf = False"
| "num_less PosInf y = False"
| "num_less (Fin a) PosInf = True"
| "num_less (Fin a) (Fin b) = (a < b)"

text \<open>\<open>v > t\<close> for a Number \<open>t\<close>: \<open>v\<close> is converted to a Number and compared.\<close>

definition js_gt :: "(jsnum \<Rightarrow> string) \<Rightarrow> jsval \<Rightarrow> jsnum \<Rightarrow> bool" where
  "js_gt ns v t = num_less t (ToNumber ns v)"

subsection \<open>Property access\<close>

text \<open>
  \<open>v.k\<close> for a key that no prototype defines (\<open>list\<close>, \<open>main\<close>, \<open>aqi\<close> are such keys):
  reading a property of \<open>undefined\<close> or \<open>null\<close> throws a TypeError, a missing property
  is \<open>undefined\<close>.
\<close>

fun get_prop :: "jsval \<Rightarrow> string \<Rightarrow> js_error + jsval" where
  "get_prop JUndefined k = Inl TypeError"
| "get_prop JNull k = Inl TypeError"
| "get_prop (JObj kvs) k = Inr (case map_of kvs k of None \<Rightarrow> JUndefined | Some v \<Rightarrow> v)"
| "get_prop v k = Inr JUndefined"

text \<open>\<open>v[0]\<close>: the first element of an array, the first character of a string, the property \<open>0\<close> of an object.\<close>

fun get_first :: "jsval \<Rightarrow> js_error + jsval" where
  "get_first JUndefined = Inl TypeError"
| "get_first JNull = Inl TypeError"
| "get_first (JArr xs) = Inr (case xs of [] \<Rightarrow> JUndefined | x # r \<Rightarrow> x)"
| "get_first (JStr s) = Inr (case s of [] \<Rightarrow> JUndefined | c # r \<Rightarrow> JStr [c])"
| "get_first (JObj kvs) = Inr (case map_of kvs ''0'' of None \<Rightarrow> JUndefined | Some v \<Rightarrow> v)"
| "get_first v = Inr JUndefined"

definition and_then :: "js_error + 'a \<Rightarrow> ('a \<Rightarrow> js_error + 'b) \<Rightarrow> js_error + 'b" where
  "and_then r f = (case r of Inl e \<Rightarrow> Inl e | Inr v \<Rightarrow> f v)"

text \<open>\<open>aqiData.list[0].main.aqi\<close>\<close>

definition currentAqiValue :: "jsval \<Rightarrow> js_error + jsval" where
  "currentAqiValue aqiData =
     and_then (get_prop aqiData ''list'') (\<lambda>l.
     and_then (get_first l) (\<lambda>e.
     and_then (get_prop e ''main'') (\<lambda>m.
     get_prop m ''aqi'')))"

section \<open>The alert runner: \<open>checkAqiAndSendAlert\<close>\<close>

text \<open>An alert as \<open>prisma.alert.findMany\<close> returns it (\<open>createdAt\<close> is never read).\<close>

record alert =
  alert_id :: string
  userId :: string
  alertTime :: string
  pollutant :: string
  threshold :: jsnum
  alertEmail :: string

text \<open>The process configuration read from the environment at start.\<close>

record config =
  api_key :: string
  resend :: bool

text \<open>
  What the function does to the outside is kept as a list of events, in order. A console
  line is kept as its template and the values interpolated in it.
\<close>

datatype level = ConsoleLog | ConsoleWarn | ConsoleError

datatype fetch_failure =
    NetworkFailure string
  | BadStatus nat
  | InvalidJson string

datatype message =
    AlertNotFound string
  | FetchFailed string fetch_failure
  | AlertTriggered string jsval jsnum
  | AllClear string jsval
  | ResendApiFailure string
  | EmailSent string string
  | ResendFinalError string
  | EmailSkipped string
  | Scheduled string string string

record email =
  email_from :: string
  email_to :: string
  email_subject :: string
  email_html :: string

datatype event =
    FindUnique string
  | HttpGet string
  | Console level message
  | ResendSend email

text \<open>What the collaborators answer during one firing.\<close>

datatype user_sel = UserSel (name: "string option")

datatype alert_sel = AlertSel (user: "user_sel option") (sel_alertEmail: "string option")

datatype find_result =
    FindThrows string
  | FindNull
  | FindRow alert_sel

datatype http_body = NotJson string | Json jsval

datatype fetch_result =
    FetchThrows string
  | Response bool nat http_body

datatype send_result =
    SendThrows string
  | SendError string
  | SendData string

record world =
  find_unique :: find_result
  fetch :: fetch_result
  send :: send_result

text \<open>An async function either resolves or rejects; nothing awaits or catches the rejection of a firing.\<close>

datatype outcome = Resolved | Rejected js_error

record run =
  events :: "event list"
  outcome :: outcome

definition aqiUrl :: "config \<Rightarrow> string" where
  "aqiUrl cfg =
     ''http://api.openweathermap.org/data/2.5/air_pollution?lat=28.7041&lon=77.1025&appid=''
     @ api_key cfg"

text \<open>\<open>alertWithUser.user?.name || 'User'\<close>\<close>

definition userName_of :: "alert_sel \<Rightarrow> string" where
  "userName_of row =
     (case user row of
        None \<Rightarrow> ''User''
      | Some u \<Rightarrow> (case name u of None \<Rightarrow> ''User'' | Some n \<Rightarrow> if n = [] then ''User'' else n))"

text \<open>The \<open>try\<close> block of step 2: everything it throws is caught and logged.\<close>

fun fetch_json :: "fetch_result \<Rightarrow> fetch_failure + jsval" where
  "fetch_json (FetchThrows m) = Inl (NetworkFailure m)"
| "fetch_json (Response ok status body) =
     (if \<not> ok then Inl (BadStatus status)
      else case body of NotJson m \<Rightarrow> Inl (InvalidJson m) | Json v \<Rightarrow> Inr v)"

subsection \<open>Step 3: the check against the threshold\<close>

definition template_line :: "string \<Rightarrow> string" where
  "template_line s = CHR 0x0A # replicate 12 CHR '' '' @ s"

definition template_end :: string where
  "template_end = CHR 0x0A # replicate 8 CHR '' ''"

definition subject_high :: string where
  "subject_high = [CHR 0xF0, CHR 0x9F, CHR 0x94, CHR 0xB4] @ '' AQI Alert: High Pollution Detected!''"

definition subject_safe :: string where
  "subject_safe = [CHR 0xF0, CHR 0x9F, CHR 0x9F, CHR 0xA2] @ '' AQI Alert: Safe to Go Outside!''"

definition current_aqi_line :: "(jsnum \<Rightarrow> string) \<Rightarrow> jsval \<Rightarrow> jsnum \<Rightarrow> string" where
  \<open>current_aqi_line ns aqi thr =
     template_line (''<p>Current AQI: <span style="font-weight: bold; font-size: 1.1em;">''
       @ ToString ns aqi @ ''</span> (Threshold: '' @ ns thr @ '')</p>'')\<close>

definition alert_time_line :: "string \<Rightarrow> string" where
  \<open>alert_time_line t =
     template_line (''<p class="small">Alert time: '' @ t @ '' (Location: New Delhi).</p>'')\<close>

definition html_high :: "(jsnum \<Rightarrow> string) \<Rightarrow> string \<Rightarrow> jsval \<Rightarrow> jsnum \<Rightarrow> string \<Rightarrow> string" where
  \<open>html_high ns userName aqi thr t =
     template_line (''<p>Hello '' @ userName @ '',</p>'')
     @ template_line ''<h3 style="color: #b91c1c;">The Air Quality Index (AQI) is high.</h3>''
     @ current_aqi_line ns aqi thr
     @ template_line ''<p>We recommend you **do not go outdoors** or limit your outdoor activities significantly.</p>''
     @ alert_time_line t
     @ template_end\<close>

definition html_safe :: "(jsnum \<Rightarrow> string) \<Rightarrow> string \<Rightarrow> jsval \<Rightarrow> jsnum \<Rightarrow> string \<Rightarrow> string" where
  \<open>html_safe ns userName aqi thr t =
     template_line (''<p>Hello '' @ userName @ '',</p>'')
     @ template_line ''<h3 style="color: #3b5d46;">Air quality is currently good or moderate.</h3>''
     @ current_aqi_line ns aqi thr
     @ template_line ''<p>It is generally safe for you to **go outdoors** for your planned activity.</p>''
     @ alert_time_line t
     @ template_end\<close>

record verdict =
  branch_line :: message
  subject :: string
  htmlContent :: string

definition check_threshold ::
  "(jsnum \<Rightarrow> string) \<Rightarrow> string \<Rightarrow> alert \<Rightarrow> jsval \<Rightarrow> verdict" where
  "check_threshold ns userName a aqi =
     (if js_gt ns aqi (threshold a)
      then \<lparr>branch_line = AlertTriggered (alertEmail a) aqi (threshold a),
            subject = subject_high,
            htmlContent = html_high ns userName aqi (threshold a) (alertTime a)\<rparr>
      else \<lparr>branch_line = AllClear (alertEmail a) aqi,
            subject = subject_safe,
            htmlContent = html_safe ns userName aqi (threshold a) (alertTime a)\<rparr>)"

text \<open>The verdict is "triggered" when the high-pollution branch wrote it.\<close>

definition triggered :: "verdict \<Rightarrow> bool" where
  "triggered v = (subject v = subject_high)"

subsection \<open>Step 4: the email\<close>

definition alert_email :: "alert \<Rightarrow> verdict \<Rightarrow> email" where
  "alert_email a v =
     \<lparr>email_from = ''BreathWise Alerts <onboarding@resend.dev>'',
      email_to = alertEmail a,
      email_subject = subject v,
      email_html = htmlContent v\<rparr>"

definition send_step :: "config \<Rightarrow> send_result \<Rightarrow> alert \<Rightarrow> verdict \<Rightarrow> event list" where
  "send_step cfg sr a v =
     (if resend cfg then
        ResendSend (alert_email a v) #
          (case sr of
             SendThrows m \<Rightarrow> [Console ConsoleError (ResendFinalError m)]
           | SendError m \<Rightarrow>
               [Console ConsoleError (ResendApiFailure m), Console ConsoleError (ResendFinalError m)]
           | SendData i \<Rightarrow> [Console ConsoleLog (EmailSent (alertEmail a) i)])
      else [Console ConsoleLog (EmailSkipped (alertEmail a))])"

subsection \<open>The whole firing\<close>

definition checkAqiAndSendAlert :: "(jsnum \<Rightarrow> string) \<Rightarrow> config \<Rightarrow> world \<Rightarrow> alert \<Rightarrow> run" where
  "checkAqiAndSendAlert ns cfg w a =
     (case find_unique w of
        FindThrows m \<Rightarrow>
          \<lparr>events = [FindUnique (alert_id a)], outcome = Rejected (StoreError m)\<rparr>
      | FindNull \<Rightarrow>
          \<lparr>events = [FindUnique (alert_id a), Console ConsoleWarn (AlertNotFound (alert_id a))],
           outcome = Resolved\<rparr>
      | FindRow row \<Rightarrow>
          (case fetch_json (fetch w) of
             Inl failure \<Rightarrow>
               \<lparr>events = [FindUnique (alert_id a), HttpGet (aqiUrl cfg),
                           Console ConsoleError (FetchFailed (alertEmail a) failure)],
                outcome = Resolved\<rparr>
           | Inr aqiData \<Rightarrow>
               (case currentAqiValue aqiData of
                  Inl e \<Rightarrow>
                    \<lparr>events = [FindUnique (alert_id a), HttpGet (aqiUrl cfg)],
                     outcome = Rejected e\<rparr>
                | Inr aqi \<Rightarrow>
                    (let v = check_threshold ns (userName_of row) a aqi
                     in \<lparr>events = [FindUnique (alert_id a), HttpGet (aqiUrl cfg),
                                    Console ConsoleLog (branch_line v)]
                                   @ send_step cfg (send w) a v,
                         outcome = Resolved\<rparr>))))"

text \<open>The emails handed to the notifier, in order.\<close>

fun sends :: "event list \<Rightarrow> email list" where
  "sends [] = []"
| "sends (ResendSend m # es) = m # sends es"
| "sends (e # es) = sends es"

text \<open>
  A printer for the examples below: \<open>Number::toString\<close> on the special values and on the
  integers of magnitude below \<open>10^21\<close>, which print as their decimal digits. The examples
  use it at such numbers only.
\<close>

fun nat_digits :: "nat \<Rightarrow> string" where
  "nat_digits n =
     (if n < 10 then [''0123456789'' ! n] else nat_digits (n div 10) @ [''0123456789'' ! (n mod 10)])"

fun integer_printer :: "jsnum \<Rightarrow> string" where
  "integer_printer NaN = ''NaN''"
| "integer_printer PosInf = ''Infinity''"
| "integer_printer NegInf = ''-Infinity''"
| "integer_printer (Fin q) =
     (if q < 0 then ''-'' @ nat_digits (nat \<lfloor>- q\<rfloor>) else nat_digits (nat \<lfloor>q\<rfloor>))"

section \<open>The scheduler: \<open>setupCronJobs\<close>\<close>

text \<open>
  The cron library keeps a registry of the tasks it was asked to schedule;
  \<open>cron.getTasks()\<close> returns it. \<open>task.stop()\<close> stops the timer of a task; the code never
  removes a task from the registry. A task holds the function it runs, here the closure
  over the alert object it was scheduled for.
\<close>

record task =
  expression :: string
  timezone :: string
  bound_alert :: alert
  running :: bool

datatype find_many_result =
    FindManyThrows string
  | FindManyRows "alert list"

record rebuild =
  tasks :: "task list"
  rebuild_events :: "event list"
  rebuild_outcome :: outcome

text \<open>\<open>s.split(c)\<close> for a one-character separator; the result is never empty.\<close>

fun split_on :: "char \<Rightarrow> string \<Rightarrow> string list" where
  "split_on c [] = [[]]"
| "split_on c (x # xs) =
     (if x = c then [] # split_on c xs
      else (case split_on c xs of [] \<Rightarrow> [[x]] | h # t \<Rightarrow> (x # h) # t))"

text \<open>An element of a destructured array, printed by a template literal: a missing one is \<open>undefined\<close>.\<close>

definition element_string :: "string list \<Rightarrow> nat \<Rightarrow> string" where
  "element_string parts i = (if i < length parts then parts ! i else ''undefined'')"

text \<open>
  \<open>const [hour, minute] = alert.alertTime.split(':'); `${minute} ${hour} * * *`\<close>
\<close>

definition cronSchedule :: "string \<Rightarrow> string" where
  "cronSchedule t =
     (let parts = split_on CHR '':'' t
      in element_string parts 1 @ '' '' @ element_string parts 0 @ '' * * *'')"

definition new_task :: "alert \<Rightarrow> task" where
  "new_task a =
     \<lparr>expression = cronSchedule (alertTime a), timezone = ''Asia/Kolkata'',
      bound_alert = a, running = True\<rparr>"

definition stop :: "task \<Rightarrow> task" where
  "stop t = t\<lparr>running := False\<rparr>"

text \<open>
  The \<open>forEach\<close> over the alerts. Which expressions \<open>cron.schedule\<close> accepts is the
  library's, taken as the parameter \<open>accepts\<close>; on any other expression it throws, and
  nothing in the loop catches: the loop ends there and the rebuild rejects.
\<close>

definition scheduled_line :: "alert \<Rightarrow> event" where
  "scheduled_line a = Console ConsoleLog (Scheduled (userId a) (alertEmail a) (alertTime a))"

fun schedule_alerts :: "(string \<Rightarrow> bool) \<Rightarrow> alert list \<Rightarrow> rebuild \<Rightarrow> rebuild" where
  "schedule_alerts accepts [] r = r"
| "schedule_alerts accepts (a # as) r =
     (if accepts (cronSchedule (alertTime a))
      then schedule_alerts accepts as
             (r\<lparr>tasks := tasks r @ [new_task a],
                rebuild_events := rebuild_events r @ [scheduled_line a]\<rparr>)
      else r\<lparr>rebuild_outcome := Rejected (CronError (cronSchedule (alertTime a)))\<rparr>)"

definition setupCronJobs :: "(string \<Rightarrow> bool) \<Rightarrow> find_many_result \<Rightarrow> task list \<Rightarrow> rebuild" where
  "setupCronJobs accepts listing registry =
     (let stopped = map stop registry
      in case listing of
           FindManyThrows m \<Rightarrow>
             \<lparr>tasks = stopped, rebuild_events = [], rebuild_outcome = Rejected (StoreError m)\<rparr>
         | FindManyRows alerts \<Rightarrow>
             schedule_alerts accepts alerts
               \<lparr>tasks = stopped, rebuild_events = [], rebuild_outcome = Resolved\<rparr>)"

text \<open>The timers that fire.\<close>

definition active :: "task list \<Rightarrow> task list" where
  "active ts = filter running ts"

text \<open>The callback of a task: \<open>() => { checkAqiAndSendAlert(alert); }\<close>\<close>

definition fire :: "(jsnum \<Rightarrow> string) \<Rightarrow> config \<Rightarrow> world \<Rightarrow> task \<Rightarrow> run" where
  "fire ns cfg w t = checkAqiAndSendAlert ns cfg w (bound_alert t)"

section \<open>Creating an alert: \<open>POST /alert\<close>\<close>

record system =
  store :: "alert list"
  registry :: "task list"

datatype reply_body = ErrorBody string | AlertCreated alert

datatype reply = Reply nat reply_body

datatype create_result = CreateThrows string | CreateOk string

text \<open>What the database answers during one request: to the insert, and to the listing of the rebuild that follows.\<close>

record db_answers =
  create_answer :: create_result
  find_many_error :: "string option"

text \<open>A field of the parsed JSON body; an absent one is \<open>undefined\<close>.\<close>

definition field :: "(string \<times> jsval) list \<Rightarrow> string \<Rightarrow> jsval" where
  "field body k = (case map_of body k of None \<Rightarrow> JUndefined | Some v \<Rightarrow> v)"

text \<open>
  \<open>prisma.alert.create\<close>: the client refuses a value that is not a string for a String
  column before it reaches the database; otherwise the database decides, and the created
  row carries the id it was given.
\<close>

definition prisma_alert_create ::
  "create_result \<Rightarrow> string \<Rightarrow> jsval \<Rightarrow> jsval \<Rightarrow> jsnum \<Rightarrow> jsval \<Rightarrow> string + alert" where
  "prisma_alert_create answer uid t p thr e =
     (case (t, p, e) of
        (JStr ts, JStr ps, JStr es) \<Rightarrow>
          (case answer of
             CreateThrows m \<Rightarrow> Inl m
           | CreateOk i \<Rightarrow>
               Inr \<lparr>alert_id = i, userId = uid, alertTime = ts, pollutant = ps,
                    threshold = thr, alertEmail = es\<rparr>)
      | _ \<Rightarrow> Inl ''PrismaClientValidationError'')"

definition find_many :: "string option \<Rightarrow> alert list \<Rightarrow> find_many_result" where
  "find_many err rows = (case err of Some m \<Rightarrow> FindManyThrows m | None \<Rightarrow> FindManyRows rows)"

text \<open>
  The handler, for an authenticated request of user \<open>uid\<close>. \<open>setupCronJobs()\<close> is called
  without \<open>await\<close>: whether it resolves or rejects, the reply is the same.
\<close>

definition post_alert ::
  "(jsnum \<Rightarrow> string) \<Rightarrow> (string \<Rightarrow> bool) \<Rightarrow> db_answers \<Rightarrow> system \<Rightarrow> string
     \<Rightarrow> (string \<times> jsval) list \<Rightarrow> reply \<times> system" where
  "post_alert ns accepts db st uid body =
     (let t = field body ''alertTime'';
          p = field body ''pollutant'';
          thr = field body ''threshold'';
          e = field body ''alertEmail''
      in if \<not> truthy t \<or> \<not> truthy p \<or> \<not> truthy thr \<or> \<not> truthy e
         then (Reply 400 (ErrorBody ''Missing required alert details (Time, Pollutant, Threshold, Email).''), st)
         else
           (case prisma_alert_create (create_answer db) uid t p (parseFloat ns thr) e of
              Inl m \<Rightarrow> (Reply 500 (ErrorBody ''Failed to create alert.''), st)
            | Inr a \<Rightarrow>
                (let rows = store st @ [a];
                     r = setupCronJobs accepts (find_many (find_many_error db) rows) (registry st)
                 in (Reply 200 (AlertCreated a), \<lparr>store = rows, registry = tasks r\<rparr>))))"

section \<open>Example data\<close>

definition rule_100 :: alert where
  "rule_100 =
     \<lparr>alert_id = ''a1'', userId = ''u1'', alertTime = ''08:00'', pollutant = ''pm25'',
      threshold = Fin 100, alertEmail = ''asha@example.org''\<rparr>"

definition cfg_on :: config where
  "cfg_on = \<lparr>api_key = ''k'', resend = True\<rparr>"

definition cfg_off :: config where
  "cfg_off = \<lparr>api_key = ''k'', resend = False\<rparr>"

text \<open>The payload \<open>{"list":[{"main":{"aqi":n}}]}\<close>.\<close>

definition payload :: "jsval \<Rightarrow> jsval" where
  "payload aqi = JObj [(''list'', JArr [JObj [(''main'', JObj [(''aqi'', aqi)])]])]"

text \<open>The payload \<open>{"list":[{"main":{}}]}\<close>: well-formed JSON without the index.\<close>

definition payload_without_aqi :: jsval where
  "payload_without_aqi = JObj [(''list'', JArr [JObj [(''main'', JObj [])]])]"

definition row_without_name :: alert_sel where
  "row_without_name = AlertSel (Some (UserSel None)) (Some ''asha@example.org'')"

text \<open>A firing where every collaborator answers well: index 150.\<close>

definition world_150 :: world where
  "world_150 =
     \<lparr>find_unique = FindRow row_without_name,
      fetch = Response True 200 (Json (payload (JNum (Fin 150)))),
      send = SendData ''e1''\<rparr>"

definition world_without_aqi :: world where
  "world_without_aqi = world_150\<lparr>fetch := Response True 200 (Json payload_without_aqi)\<rparr>"

text \<open>The payload \<open>{"list":[]}\<close>: no measurement in the list.\<close>

definition world_empty_list :: world where
  "world_empty_list = world_150\<lparr>fetch := Response True 200 (Json (JObj [(''list'', JArr [])]))\<rparr>"

definition world_row_gone :: world where
  "world_row_gone = world_150\<lparr>find_unique := FindNull\<rparr>"

definition task_100 :: task where
  "task_100 = new_task rule_100"

definition rule_bad_time :: alert where
  "rule_bad_time = rule_100\<lparr>alert_id := ''a0'', alertTime := ''abc''\<rparr>"

definition rule_0830 :: alert where
  "rule_0830 = rule_100\<lparr>alert_id := ''a2'', alertTime := ''08:30'', threshold := Fin 3\<rparr>"

text \<open>
  Two stand-ins for the cron library in the examples below. The first accepts the
  expressions this code builds from an hour:minute time, \<open>M H * * *\<close> with a minute up
  to 59 and an hour up to 23, and throws on anything else; the second accepts everything.
\<close>

definition numeric_upto :: "nat \<Rightarrow> string \<Rightarrow> bool" where
  "numeric_upto hi s = (s \<noteq> [] \<and> list_all is_digit s \<and> digits_value s \<le> hi)"

definition daily_expression_ok :: "string \<Rightarrow> bool" where
  "daily_expression_ok e =
     (case split_on CHR '' '' e of
        [m, h, d, mo, wd] \<Rightarrow>
          numeric_upto 59 m \<and> numeric_upto 23 h \<and> d = ''*'' \<and> mo = ''*'' \<and> wd = ''*''
      | _ \<Rightarrow> False)"

definition accept_all :: "string \<Rightarrow> bool" where
  "accept_all e = True"

text \<open>The request body \<open>{alertTime: "08:00", pollutant: "pm25", threshold: v, alertEmail: "asha@example.org"}\<close>.\<close>

definition body_with :: "jsval \<Rightarrow> (string \<times> jsval) list" where
  "body_with v =
     [(''alertTime'', JStr ''08:00''), (''pollutant'', JStr ''pm25''), (''threshold'', v),
      (''alertEmail'', JStr ''asha@example.org'')]"

definition db_ok :: db_answers where
  "db_ok = \<lparr>create_answer = CreateOk ''n1'', find_many_error = None\<rparr>"

definition empty_system :: system where
  "empty_system = \<lparr>store = [], registry = []\<rparr>"

definition created_rule :: "jsnum \<Rightarrow> alert" where
  "created_rule n =
     \<lparr>alert_id = ''n1'', userId = ''u1'', alertTime = ''08:00'', pollutant = ''pm25'',
      threshold = n, alertEmail = ''asha@example.org''\<rparr>"

section \<open>Properties of the threshold check\<close>

lemma subjects_differ: "subject_high \<noteq> subject_safe"
  by (simp add: subject_high_def subject_safe_def)

lemma triggered_check_threshold:
  "triggered (check_threshold ns u a aqi) = js_gt ns aqi (threshold a)"
  by (simp add: triggered_def check_threshold_def subjects_differ[symmetric])

lemma split_intro:
  "x = p1 @ a @ p2 @ b @ p3 \<Longrightarrow> \<exists>q1 q2 q3. x = q1 @ a @ q2 @ b @ q3"
  by blast

lemma split_embed:
  assumes "\<exists>q1 q2 q3. y = q1 @ a @ q2 @ b @ q3"
  shows "\<exists>q1 q2 q3. l1 @ l2 @ y @ r = q1 @ a @ q2 @ b @ q3"
proof -
  obtain q1 q2 q3 where "y = q1 @ a @ q2 @ b @ q3"
    using assms by blast
  then have "l1 @ l2 @ y @ r = (l1 @ l2 @ q1) @ a @ q2 @ b @ (q3 @ r)"
    by simp
  then show ?thesis
    by (rule split_intro)
qed

lemma template_line_split:
  "\<exists>q1 q2 q3. template_line (s1 @ a @ s2 @ b @ s3) = q1 @ a @ q2 @ b @ q3"
proof -
  have "template_line (s1 @ a @ s2 @ b @ s3) = (CHR 0x0A # replicate 12 CHR '' '' @ s1) @ a @ s2 @ b @ s3"
    by (simp add: template_line_def)
  then show ?thesis
    by (rule split_intro)
qed

lemma current_aqi_line_split:
  "\<exists>p1 p2 p3. current_aqi_line ns aqi thr = p1 @ ToString ns aqi @ p2 @ ns thr @ p3"
  unfolding current_aqi_line_def by (rule template_line_split)

lemma html_high_split:
  "\<exists>p1 p2 p3. html_high ns u aqi thr t = p1 @ ToString ns aqi @ p2 @ ns thr @ p3"
  unfolding html_high_def by (rule split_embed) (rule current_aqi_line_split)

lemma html_safe_split:
  "\<exists>p1 p2 p3. html_safe ns u aqi thr t = p1 @ ToString ns aqi @ p2 @ ns thr @ p3"
  unfolding html_safe_def by (rule split_embed) (rule current_aqi_line_split)

lemma html_check_threshold:
  "\<exists>p1 p2 p3. htmlContent (check_threshold ns u a aqi)
      = p1 @ ToString ns aqi @ p2 @ ns (threshold a) @ p3"
  using html_high_split html_safe_split by (simp add: check_threshold_def)

lemma html_mentions_index: "sublist (ToString ns aqi) (htmlContent (check_threshold ns u a aqi))"
proof -
  obtain p1 p2 p3 where
    "htmlContent (check_threshold ns u a aqi) = p1 @ ToString ns aqi @ p2 @ ns (threshold a) @ p3"
    using html_check_threshold by blast
  then show ?thesis
    unfolding sublist_def by blast
qed

lemma html_mentions_threshold: "sublist (ns (threshold a)) (htmlContent (check_threshold ns u a aqi))"
proof -
  obtain p1 p2 p3 where
    "htmlContent (check_threshold ns u a aqi) = p1 @ ToString ns aqi @ p2 @ ns (threshold a) @ p3"
    using html_check_threshold by blast
  then have "htmlContent (check_threshold ns u a aqi)
      = (p1 @ ToString ns aqi @ p2) @ ns (threshold a) @ p3"
    by simp
  then show ?thesis
    unfolding sublist_def by blast
qed

text \<open>
  With a Number as index the branch taken is the order of Numbers, whatever the
  threshold; against \<open>NaN\<close> nothing triggers.
\<close>

lemma triggered_numbers:
  "triggered (check_threshold ns u a (JNum n)) = num_less (threshold a) n"
  by (simp add: triggered_check_threshold js_gt_def)

text \<open>
  C1. For a reading with a numeric index \<open>x\<close> and a rule with the finite threshold \<open>t\<close>, the
  check is triggered exactly when \<open>x > t\<close>; at \<open>x = t\<close> it is not triggered; and in both
  branches the HTML body contains the index and the threshold as the template prints them.
\<close>

theorem threshold_check_strict:
  "triggered (check_threshold ns u (a\<lparr>threshold := Fin t\<rparr>) (JNum (Fin x))) = (t < x)
   \<and> \<not> triggered (check_threshold ns u (a\<lparr>threshold := Fin t\<rparr>) (JNum (Fin t)))
   \<and> sublist (ns (Fin x)) (htmlContent (check_threshold ns u (a\<lparr>threshold := Fin t\<rparr>) (JNum (Fin x))))
   \<and> sublist (ns (Fin t)) (htmlContent (check_threshold ns u (a\<lparr>threshold := Fin t\<rparr>) (JNum (Fin x))))"
proof -
  let ?a = "a\<lparr>threshold := Fin t\<rparr>"
  have "sublist (ToString ns (JNum (Fin x))) (htmlContent (check_threshold ns u ?a (JNum (Fin x))))"
    by (rule html_mentions_index)
  moreover have "sublist (ns (threshold ?a)) (htmlContent (check_threshold ns u ?a (JNum (Fin x))))"
    by (rule html_mentions_threshold)
  ultimately show ?thesis
    by (simp add: triggered_numbers)
qed

text \<open>
  The scenario of the specification: threshold 100, index 150. The verdict is triggered
  and the body contains "150" and "100".
\<close>

theorem threshold_check_strict_witness:
  "triggered (check_threshold integer_printer ''Asha'' rule_100 (JNum (Fin 150)))
   \<and> sublist ''150'' (htmlContent (check_threshold integer_printer ''Asha'' rule_100 (JNum (Fin 150))))
   \<and> sublist ''100'' (htmlContent (check_threshold integer_printer ''Asha'' rule_100 (JNum (Fin 150))))"
proof -
  have a: "rule_100\<lparr>threshold := Fin 100\<rparr> = rule_100"
    by (simp add: rule_100_def)
  have p: "integer_printer (Fin 150) = ''150''" "integer_printer (Fin 100) = ''100''"
    by code_simp+
  show ?thesis
    using threshold_check_strict [where ns = integer_printer and u = "''Asha''" and t = 100
        and x = 150 and a = rule_100]
    unfolding a p by simp
qed

section \<open>Properties of a firing\<close>

lemma num_less_NaN_right [simp]: "num_less x NaN = False"
  by (cases x) simp_all

lemma sends_send_step:
  "sends (send_step cfg sr a v) = (if resend cfg then [alert_email a v] else [])"
  by (simp add: send_step_def split: send_result.splits)

lemma run_reaching_notify:
  assumes "find_unique w = FindRow row" and "fetch_json (fetch w) = Inr d"
    and "currentAqiValue d = Inr aqi"
  shows "checkAqiAndSendAlert ns cfg w a =
     \<lparr>events = [FindUnique (alert_id a), HttpGet (aqiUrl cfg),
                 Console ConsoleLog (branch_line (check_threshold ns (userName_of row) a aqi))]
                @ send_step cfg (send w) a (check_threshold ns (userName_of row) a aqi),
      outcome = Resolved\<rparr>"
  using assms by (simp add: checkAqiAndSendAlert_def Let_def)

lemma sends_of_run:
  "sends (events (checkAqiAndSendAlert ns cfg w a)) =
     (case find_unique w of
        FindRow row \<Rightarrow>
          (case fetch_json (fetch w) of
             Inr d \<Rightarrow>
               (case currentAqiValue d of
                  Inr aqi \<Rightarrow>
                    if resend cfg
                    then [alert_email a (check_threshold ns (userName_of row) a aqi)] else []
                | Inl e \<Rightarrow> [])
           | Inl f \<Rightarrow> [])
      | _ \<Rightarrow> [])"
  by (simp add: checkAqiAndSendAlert_def Let_def sends_send_step
      split: find_result.splits sum.splits)

lemma at_most_one_email: "length (sends (events (checkAqiAndSendAlert ns cfg w a))) \<le> 1"
  by (simp add: sends_of_run split: find_result.splits sum.splits)

text \<open>
  C7. No firing sends more than one email. A firing that reaches the notify step hands
  exactly one email to a configured notifier, addressed to the alert's \<open>alertEmail\<close>,
  with the subject and the HTML body of the verdict; an error the notifier reports or
  throws is logged and nothing is sent again; without a notifier the only thing that
  follows is the console line that the sending was skipped, written with
  \<open>console.log\<close>. Such a firing resolves.
\<close>

theorem notify_step_sends_once:
  "length (sends (events (checkAqiAndSendAlert ns cfg w a))) \<le> 1
   \<and> (find_unique w = FindRow row \<and> fetch_json (fetch w) = Inr d \<and> currentAqiValue d = Inr aqi \<longrightarrow>
       (resend cfg \<longrightarrow>
          sends (events (checkAqiAndSendAlert ns cfg w a)) =
            [\<lparr>email_from = ''BreathWise Alerts <onboarding@resend.dev>'',
              email_to = alertEmail a,
              email_subject = subject (check_threshold ns (userName_of row) a aqi),
              email_html = htmlContent (check_threshold ns (userName_of row) a aqi)\<rparr>])
     \<and> (resend cfg \<and> send w = SendError m \<longrightarrow>
          drop 3 (events (checkAqiAndSendAlert ns cfg w a)) =
            [ResendSend (alert_email a (check_threshold ns (userName_of row) a aqi)),
             Console ConsoleError (ResendApiFailure m),
             Console ConsoleError (ResendFinalError m)])
     \<and> (resend cfg \<and> send w = SendThrows m \<longrightarrow>
          drop 3 (events (checkAqiAndSendAlert ns cfg w a)) =
            [ResendSend (alert_email a (check_threshold ns (userName_of row) a aqi)),
             Console ConsoleError (ResendFinalError m)])
     \<and> (\<not> resend cfg \<longrightarrow>
          drop 3 (events (checkAqiAndSendAlert ns cfg w a)) =
            [Console ConsoleLog (EmailSkipped (alertEmail a))])
     \<and> outcome (checkAqiAndSendAlert ns cfg w a) = Resolved)"
proof (intro conjI impI, goal_cases)
  case 1
  show ?case
    by (rule at_most_one_email)
next
  case 2
  then show ?case
    by (simp add: sends_of_run alert_email_def)
next
  case 3
  then show ?case
    by (simp add: run_reaching_notify send_step_def)
next
  case 4
  then show ?case
    by (simp add: run_reaching_notify send_step_def)
next
  case 5
  then show ?case
    by (simp add: run_reaching_notify send_step_def)
next
  case 6
  then show ?case
    by (simp add: run_reaching_notify)
qed

text \<open>
  An instance: index 150 against the threshold 100, once with the notifier configured
  and once without.
\<close>

theorem notify_step_sends_once_witness:
  "sends (events (checkAqiAndSendAlert integer_printer cfg_on world_150 rule_100)) =
     [\<lparr>email_from = ''BreathWise Alerts <onboarding@resend.dev>'',
       email_to = ''asha@example.org'',
       email_subject = subject_high,
       email_html = html_high integer_printer ''User'' (JNum (Fin 150)) (Fin 100) ''08:00''\<rparr>]
   \<and> drop 3 (events (checkAqiAndSendAlert integer_printer cfg_off world_150 rule_100)) =
     [Console ConsoleLog (EmailSkipped ''asha@example.org'')]"
proof -
  have w: "find_unique world_150 = FindRow row_without_name"
    "fetch_json (fetch world_150) = Inr (payload (JNum (Fin 150)))"
    by (simp_all add: world_150_def)
  have d: "currentAqiValue (payload (JNum (Fin 150))) = Inr (JNum (Fin 150))"
    by (simp add: currentAqiValue_def payload_def and_then_def)
  have v: "check_threshold integer_printer (userName_of row_without_name) rule_100 (JNum (Fin 150))
      = \<lparr>branch_line = AlertTriggered ''asha@example.org'' (JNum (Fin 150)) (Fin 100),
         subject = subject_high,
         htmlContent = html_high integer_printer ''User'' (JNum (Fin 150)) (Fin 100) ''08:00''\<rparr>"
    by (simp add: check_threshold_def userName_of_def row_without_name_def rule_100_def js_gt_def)
  have e: "alertEmail rule_100 = ''asha@example.org''"
    by (simp add: rule_100_def)
  have c: "resend cfg_on" "\<not> resend cfg_off"
    by (simp_all add: cfg_on_def cfg_off_def)
  show ?thesis
    using notify_step_sends_once [where ns = integer_printer and cfg = cfg_on and w = world_150
        and a = rule_100 and row = row_without_name and d = "payload (JNum (Fin 150))"
        and aqi = "JNum (Fin 150)"]
      notify_step_sends_once [where ns = integer_printer and cfg = cfg_off and w = world_150
        and a = rule_100 and row = row_without_name and d = "payload (JNum (Fin 150))"
        and aqi = "JNum (Fin 150)"]
    by (simp add: w d v e c)
qed

text \<open>
  What the \<open>try\<close> block of step 2 catches: a failed request, a response that is not ok,
  a body that is not JSON. Each is logged, nothing is sent and the firing resolves.
\<close>

lemma fetch_failure_sends_nothing:
  assumes "find_unique w = FindRow row" and "fetch_json (fetch w) = Inl f"
  shows "checkAqiAndSendAlert ns cfg w a =
     \<lparr>events = [FindUnique (alert_id a), HttpGet (aqiUrl cfg),
                 Console ConsoleError (FetchFailed (alertEmail a) f)],
      outcome = Resolved\<rparr>"
  using assms by (simp add: checkAqiAndSendAlert_def)

lemma fetch_failures:
  "fetch_json (FetchThrows m) = Inl (NetworkFailure m)"
  "fetch_json (Response False status body) = Inl (BadStatus status)"
  "fetch_json (Response True status (NotJson m)) = Inl (InvalidJson m)"
  by simp_all

text \<open>
  C4. The index is read from the payload after the \<open>try\<close> block. A response that is ok
  and carries the JSON \<open>{"list":[{"main":{}}]}\<close> has no index: the comparison with
  \<open>undefined\<close> is false, and the "safe" email is sent with \<open>undefined\<close> as the current
  index. With the JSON \<open>{"list":[]}\<close> the read throws a TypeError that nothing catches: the firing
  rejects and nothing is logged.
\<close>

theorem payload_without_index_is_mailed:
  "map email_to (sends (events (checkAqiAndSendAlert integer_printer cfg_on world_without_aqi rule_100)))
     = [''asha@example.org'']
   \<and> map email_subject (sends (events (checkAqiAndSendAlert integer_printer cfg_on world_without_aqi rule_100)))
     = [subject_safe]
   \<and> list_all (\<lambda>m. sublist ''undefined'' (email_html m))
       (sends (events (checkAqiAndSendAlert integer_printer cfg_on world_without_aqi rule_100)))
   \<and> checkAqiAndSendAlert integer_printer cfg_on world_empty_list rule_100
     = \<lparr>events = [FindUnique ''a1'', HttpGet (aqiUrl cfg_on)], outcome = Rejected TypeError\<rparr>"
proof -
  have w: "find_unique world_without_aqi = FindRow row_without_name"
    "fetch_json (fetch world_without_aqi) = Inr payload_without_aqi"
    by (simp_all add: world_without_aqi_def world_150_def)
  have d: "currentAqiValue payload_without_aqi = Inr JUndefined"
    by (simp add: currentAqiValue_def payload_without_aqi_def and_then_def)
  have s: "sends (events (checkAqiAndSendAlert integer_printer cfg_on world_without_aqi rule_100))
      = [alert_email rule_100 (check_threshold integer_printer (userName_of row_without_name) rule_100 JUndefined)]"
    by (simp add: sends_of_run w d cfg_on_def)
  have g: "\<not> js_gt integer_printer JUndefined (threshold rule_100)"
    by (simp add: js_gt_def)
  have sub: "subject (check_threshold integer_printer (userName_of row_without_name) rule_100 JUndefined)
      = subject_safe"
    using g by (simp add: check_threshold_def)
  have html: "sublist ''undefined''
      (htmlContent (check_threshold integer_printer (userName_of row_without_name) rule_100 JUndefined))"
    using html_mentions_index [of integer_printer JUndefined] by simp
  have e: "checkAqiAndSendAlert integer_printer cfg_on world_empty_list rule_100
      = \<lparr>events = [FindUnique ''a1'', HttpGet (aqiUrl cfg_on)], outcome = Rejected TypeError\<rparr>"
    by (simp add: checkAqiAndSendAlert_def world_empty_list_def world_150_def
        currentAqiValue_def and_then_def rule_100_def)
  show ?thesis
    unfolding s e using sub html by (simp add: alert_email_def rule_100_def)
qed

text \<open>
  C5, as stated, fails: when the lookup of the alert returns nothing, the firing warns
  and ends; the reading is not fetched and nothing is sent.
\<close>

theorem missing_row_ends_firing:
  "checkAqiAndSendAlert integer_printer cfg_on world_row_gone rule_100
     = \<lparr>events = [FindUnique ''a1'', Console ConsoleWarn (AlertNotFound ''a1'')], outcome = Resolved\<rparr>"
  by (simp add: checkAqiAndSendAlert_def world_row_gone_def world_150_def rule_100_def)

text \<open>A lookup that throws is not caught: the firing rejects before the reading is fetched.\<close>

lemma lookup_failure_rejects:
  "find_unique w = FindThrows m \<Longrightarrow>
   checkAqiAndSendAlert ns cfg w a
     = \<lparr>events = [FindUnique (alert_id a)], outcome = Rejected (StoreError m)\<rparr>"
  by (simp add: checkAqiAndSendAlert_def)

lemma userName_of_cases:
  "userName_of (AlertSel None e) = ''User''"
  "userName_of (AlertSel (Some (UserSel None)) e) = ''User''"
  "userName_of (AlertSel (Some (UserSel (Some []))) e) = ''User''"
  "n \<noteq> [] \<Longrightarrow> userName_of (AlertSel (Some (UserSel (Some n))) e) = n"
  by (simp_all add: userName_of_def)

text \<open>
  C5, amended. The placeholder \<open>User\<close> stands in for the name when the lookup returns
  the alert's row and the row has no owner, no name or an empty name; the firing then
  goes on to fetch the reading, and with a reading it evaluates and notifies. When the
  lookup returns no row the firing logs a warning and ends there.
\<close>

theorem placeholder_name_only_for_found_row:
  "userName_of (AlertSel None e) = ''User''
   \<and> userName_of (AlertSel (Some (UserSel None)) e) = ''User''
   \<and> userName_of (AlertSel (Some (UserSel (Some []))) e) = ''User''
   \<and> (find_unique w = FindRow row \<longrightarrow>
        take 2 (events (checkAqiAndSendAlert ns cfg w a)) = [FindUnique (alert_id a), HttpGet (aqiUrl cfg)])
   \<and> (find_unique w = FindRow row \<and> fetch_json (fetch w) = Inr d \<and> currentAqiValue d = Inr aqi \<longrightarrow>
        checkAqiAndSendAlert ns cfg w a =
          \<lparr>events = [FindUnique (alert_id a), HttpGet (aqiUrl cfg),
                      Console ConsoleLog (branch_line (check_threshold ns (userName_of row) a aqi))]
                     @ send_step cfg (send w) a (check_threshold ns (userName_of row) a aqi),
           outcome = Resolved\<rparr>)
   \<and> (find_unique w = FindNull \<longrightarrow>
        checkAqiAndSendAlert ns cfg w a =
          \<lparr>events = [FindUnique (alert_id a), Console ConsoleWarn (AlertNotFound (alert_id a))],
           outcome = Resolved\<rparr>)"
proof -
  have "find_unique w = FindRow row \<Longrightarrow>
      take 2 (events (checkAqiAndSendAlert ns cfg w a)) = [FindUnique (alert_id a), HttpGet (aqiUrl cfg)]"
    by (simp add: checkAqiAndSendAlert_def Let_def split: sum.splits)
  moreover have "find_unique w = FindNull \<Longrightarrow>
      checkAqiAndSendAlert ns cfg w a =
        \<lparr>events = [FindUnique (alert_id a), Console ConsoleWarn (AlertNotFound (alert_id a))],
         outcome = Resolved\<rparr>"
    by (simp add: checkAqiAndSendAlert_def)
  ultimately show ?thesis
    using run_reaching_notify [of w row d aqi ns cfg a] by (simp add: userName_of_cases)
qed

text \<open>
  An instance of each case: a row without a name gives the salutation "Hello User,";
  a missing row gives the warning alone.
\<close>

theorem placeholder_name_only_for_found_row_witness:
  "sublist ''<p>Hello User,</p>''
     (email_html (hd (sends (events (checkAqiAndSendAlert integer_printer cfg_on world_150 rule_100)))))
   \<and> events (checkAqiAndSendAlert integer_printer cfg_on world_row_gone rule_100)
      = [FindUnique ''a1'', Console ConsoleWarn (AlertNotFound ''a1'')]"
proof -
  have w: "find_unique world_150 = FindRow row_without_name"
    "fetch_json (fetch world_150) = Inr (payload (JNum (Fin 150)))"
    "find_unique world_row_gone = FindNull"
    by (simp_all add: world_150_def world_row_gone_def)
  have d: "currentAqiValue (payload (JNum (Fin 150))) = Inr (JNum (Fin 150))"
    by (simp add: currentAqiValue_def payload_def and_then_def)
  have u: "userName_of row_without_name = ''User''"
    by (simp add: row_without_name_def userName_of_def)
  have c: "resend cfg_on"
    by (simp add: cfg_on_def)
  have i: "alert_id rule_100 = ''a1''"
    by (simp add: rule_100_def)
  have h: "sublist ''<p>Hello User,</p>'' (htmlContent (check_threshold integer_printer ''User'' rule_100 aqi))" for aqi
    unfolding check_threshold_def html_high_def html_safe_def template_line_def sublist_def
    by (cases "js_gt integer_printer aqi (threshold rule_100)") (simp; metis append_Cons append_Nil)+
  show ?thesis
    using placeholder_name_only_for_found_row
      [of "Some ''asha@example.org''" world_150 row_without_name integer_printer cfg_on rule_100
        "payload (JNum (Fin 150))" "JNum (Fin 150)"]
      placeholder_name_only_for_found_row
      [of "Some ''asha@example.org''" world_row_gone row_without_name integer_printer cfg_on rule_100
        "payload (JNum (Fin 150))" "JNum (Fin 150)"]
    by (simp add: w d u c i h send_step_def alert_email_def)
qed

section \<open>Properties of the scheduler\<close>

lemma schedule_alerts_tasks:
  "tasks (schedule_alerts accepts as r)
     = tasks r @ map new_task (takeWhile (\<lambda>a. accepts (cronSchedule (alertTime a))) as)"
  by (induction as arbitrary: r) simp_all

lemma schedule_alerts_events:
  "rebuild_events (schedule_alerts accepts as r)
     = rebuild_events r @ map scheduled_line (takeWhile (\<lambda>a. accepts (cronSchedule (alertTime a))) as)"
  by (induction as arbitrary: r) (simp_all add: scheduled_line_def)

lemma schedule_alerts_outcome:
  "rebuild_outcome r = Resolved \<Longrightarrow>
     (rebuild_outcome (schedule_alerts accepts as r) = Resolved)
       = list_all (\<lambda>a. accepts (cronSchedule (alertTime a))) as"
  by (induction as arbitrary: r) simp_all

lemma active_stopped [simp]: "active (map stop reg) = []"
  by (induction reg) (simp_all add: active_def stop_def)

lemma active_new [simp]: "active (map new_task as) = map new_task as"
  by (induction as) (simp_all add: active_def new_task_def)

lemma active_append [simp]: "active (xs @ ys) = active xs @ active ys"
  by (simp add: active_def)

lemma bound_alert_new_task [simp]: "bound_alert (new_task a) = a"
  by (simp add: new_task_def)

lemma running_task_100: "running task_100"
  by (simp add: task_100_def new_task_def)

lemma active_after_rebuild:
  "active (tasks (setupCronJobs accepts (FindManyRows alerts) reg))
     = map new_task (takeWhile (\<lambda>a. accepts (cronSchedule (alertTime a))) alerts)"
  by (simp add: setupCronJobs_def schedule_alerts_tasks)

lemma takeWhile_all: "list_all P xs \<Longrightarrow> takeWhile P xs = xs"
  by (induction xs) simp_all

lemma listing_stops:
  "tasks (setupCronJobs accepts (FindManyThrows m) reg) = map stop reg"
  by (simp add: setupCronJobs_def)

text \<open>
  C2, as stated, fails. The time \<open>abc\<close> gives the expression \<open>undefined abc * * *\<close>.
  If the library throws on it, the rebuild rejects there: no warning is logged and the
  well-formed rule after it gets no timer. If the library accepts it, the malformed rule
  is scheduled like any other.
\<close>

theorem malformed_rule_stops_rebuild:
  "setupCronJobs daily_expression_ok (FindManyRows [rule_bad_time, rule_100]) []
     = \<lparr>tasks = [], rebuild_events = [],
        rebuild_outcome = Rejected (CronError ''undefined abc * * *'')\<rparr>
   \<and> map bound_alert (active (tasks (setupCronJobs accept_all (FindManyRows [rule_bad_time, rule_100]) [])))
     = [rule_bad_time, rule_100]"
proof -
  have e: "cronSchedule (alertTime rule_bad_time) = ''undefined abc * * *''"
    by (simp add: rule_bad_time_def rule_100_def cronSchedule_def element_string_def)
  have n: "\<not> daily_expression_ok ''undefined abc * * *''"
    by (simp add: daily_expression_ok_def numeric_upto_def is_digit_def)
  have "setupCronJobs daily_expression_ok (FindManyRows [rule_bad_time, rule_100]) []
      = \<lparr>tasks = [], rebuild_events = [],
         rebuild_outcome = Rejected (CronError ''undefined abc * * *'')\<rparr>"
    by (simp add: setupCronJobs_def e n)
  moreover have "map bound_alert (active (tasks (setupCronJobs accept_all
      (FindManyRows [rule_bad_time, rule_100]) []))) = [rule_bad_time, rule_100]"
    by (simp add: active_after_rebuild accept_all_def)
  ultimately show ?thesis
    by (rule conjI)
qed

text \<open>
  C2, amended. The rebuild checks no time and skips no rule. Rules are scheduled in the
  order of the listing; the first rule whose expression the library rejects ends the
  rebuild with that error: the rules before it have timers and a console line each, that
  rule and the rules after it have neither, and no warning is written.
\<close>

theorem rebuild_stops_at_rejected_rule:
  "active (tasks (setupCronJobs accepts (FindManyRows alerts) reg))
     = map new_task (takeWhile (\<lambda>a. accepts (cronSchedule (alertTime a))) alerts)
   \<and> rebuild_events (setupCronJobs accepts (FindManyRows alerts) reg)
     = map scheduled_line (takeWhile (\<lambda>a. accepts (cronSchedule (alertTime a))) alerts)
   \<and> (rebuild_outcome (setupCronJobs accepts (FindManyRows alerts) reg) = Resolved)
     = list_all (\<lambda>a. accepts (cronSchedule (alertTime a))) alerts"
  by (simp add: active_after_rebuild)
    (simp add: setupCronJobs_def schedule_alerts_events schedule_alerts_outcome)

text \<open>
  C3, as stated, fails: the timers are stopped before the rules are listed, so a failed
  listing leaves a timer that was running stopped.
\<close>

theorem listing_failure_stops_all_timers:
  "active [task_100] = [task_100]
   \<and> active (tasks (setupCronJobs accept_all (FindManyThrows ''store unreachable'') [task_100])) = []"
proof -
  have "active [task_100] = [task_100]"
    by (simp add: active_def running_task_100)
  moreover have "active (tasks (setupCronJobs accept_all (FindManyThrows ''store unreachable'') [task_100])) = []"
    unfolding listing_stops by (rule active_stopped)
  ultimately show ?thesis
    by (rule conjI)
qed

text \<open>
  C3, amended. When the listing fails the rebuild rejects with the store's error after
  it has stopped every task of the registry: no timer is active, none is added, and the
  stopped tasks stay in the registry.
\<close>

theorem listing_failure_after_stop:
  "setupCronJobs accepts (FindManyThrows m) reg
     = \<lparr>tasks = map stop reg, rebuild_events = [], rebuild_outcome = Rejected (StoreError m)\<rparr>
   \<and> active (tasks (setupCronJobs accepts (FindManyThrows m) reg)) = []
   \<and> length (tasks (setupCronJobs accepts (FindManyThrows m) reg)) = length reg"
  by (simp add: setupCronJobs_def)

text \<open>
  C6, as stated, fails. Of three rules, the second malformed, two are well-formed; the
  rebuild leaves one timer if the library throws on the malformed expression and three
  if it accepts it.
\<close>

theorem timer_count_with_malformed_rule:
  "length (active (tasks (setupCronJobs daily_expression_ok (FindManyRows [rule_0830, rule_bad_time, rule_100]) []))) = 1
   \<and> length (active (tasks (setupCronJobs accept_all (FindManyRows [rule_0830, rule_bad_time, rule_100]) []))) = 3"
proof -
  have e: "cronSchedule (alertTime rule_bad_time) = ''undefined abc * * *''"
    "cronSchedule (alertTime rule_0830) = ''30 08 * * *''"
    by (simp_all add: rule_bad_time_def rule_0830_def rule_100_def cronSchedule_def element_string_def)
  have n: "\<not> daily_expression_ok ''undefined abc * * *''" "daily_expression_ok ''30 08 * * *''"
    by (simp_all add: daily_expression_ok_def numeric_upto_def is_digit_def digits_value_def digit_val_def)
  show ?thesis
    by (simp add: active_after_rebuild e n accept_all_def)
qed

text \<open>
  C6, amended. When the listing succeeds and the library accepts the expression of every
  rule, the active timers after a rebuild are one per rule, in the order of the listing,
  and a second rebuild with the same rules leaves again exactly one active timer per rule.
\<close>

theorem one_timer_per_rule_when_all_accepted:
  assumes "list_all (\<lambda>a. accepts (cronSchedule (alertTime a))) alerts"
  shows "active (tasks (setupCronJobs accepts (FindManyRows alerts) reg)) = map new_task alerts
    \<and> length (active (tasks (setupCronJobs accepts (FindManyRows alerts) reg))) = length alerts
    \<and> active (tasks (setupCronJobs accepts (FindManyRows alerts)
          (tasks (setupCronJobs accepts (FindManyRows alerts) reg)))) = map new_task alerts
    \<and> map bound_alert (active (tasks (setupCronJobs accepts (FindManyRows alerts)
          (tasks (setupCronJobs accepts (FindManyRows alerts) reg))))) = alerts"
proof -
  have "map bound_alert (map new_task alerts) = alerts"
    by (induction alerts) (simp_all add: new_task_def)
  then show ?thesis
    using assms by (simp add: active_after_rebuild takeWhile_all)
qed

text \<open>
  An instance: two rules, 08:30 and 08:00, rebuilt twice from an empty registry.
\<close>

theorem one_timer_per_rule_when_all_accepted_witness:
  "map bound_alert (active (tasks (setupCronJobs daily_expression_ok (FindManyRows [rule_0830, rule_100])
      (tasks (setupCronJobs daily_expression_ok (FindManyRows [rule_0830, rule_100]) [])))))
    = [rule_0830, rule_100]
   \<and> length (active (tasks (setupCronJobs daily_expression_ok (FindManyRows [rule_0830, rule_100]) []))) = 2"
proof -
  have e: "cronSchedule (alertTime rule_100) = ''00 08 * * *''"
    "cronSchedule (alertTime rule_0830) = ''30 08 * * *''"
    by (simp_all add: rule_0830_def rule_100_def cronSchedule_def element_string_def)
  have n: "daily_expression_ok ''00 08 * * *''" "daily_expression_ok ''30 08 * * *''"
    by (simp_all add: daily_expression_ok_def numeric_upto_def is_digit_def digits_value_def digit_val_def)
  have "list_all (\<lambda>a. daily_expression_ok (cronSchedule (alertTime a))) [rule_0830, rule_100]"
    by (simp add: e n)
  from one_timer_per_rule_when_all_accepted [OF this, of "[]"] show ?thesis
    by simp
qed

section \<open>The snapshot a timer fires with\<close>

lemma fire_reads_store_first:
  "hd (events (fire ns cfg w t)) = FindUnique (alert_id (bound_alert t))"
  by (simp add: fire_def checkAqiAndSendAlert_def Let_def split: find_result.splits sum.splits)

text \<open>
  C8, as stated, fails: a firing does read the rule from the store, by its id, before
  anything else, and what it finds matters: with the row gone the same timer, reading
  and notifier send nothing.
\<close>

theorem firing_queries_the_store:
  "hd (events (fire integer_printer cfg_on world_150 task_100)) = FindUnique ''a1''
   \<and> map email_to (sends (events (fire integer_printer cfg_on world_150 task_100))) = [''asha@example.org'']
   \<and> sends (events (fire integer_printer cfg_on world_row_gone task_100)) = []"
proof -
  have b: "bound_alert task_100 = rule_100"
    by (simp add: task_100_def)
  have i: "alert_id rule_100 = ''a1''" "alertEmail rule_100 = ''asha@example.org''"
    by (simp_all add: rule_100_def)
  have d: "currentAqiValue (payload (JNum (Fin 150))) = Inr (JNum (Fin 150))"
    by (simp add: currentAqiValue_def payload_def and_then_def)
  have "map email_to (sends (events (fire integer_printer cfg_on world_150 task_100))) = [''asha@example.org'']"
    by (simp add: fire_def b sends_of_run world_150_def d cfg_on_def alert_email_def i)
  moreover have "sends (events (fire integer_printer cfg_on world_row_gone task_100)) = []"
    by (simp add: fire_def sends_of_run world_row_gone_def)
  ultimately show ?thesis
    by (simp add: fire_reads_store_first b i)
qed

text \<open>
  C8, amended. The threshold and the recipient of a firing are those of the alert object
  the timer was scheduled with. The store is queried at fire time for the owner's name
  (and a missing row ends the firing), but nothing it returns replaces them: two firings
  of one timer for which the store returns a row, whatever the rows hold, with the same
  reading and the same notifier answer, send to the same recipient with the same subject;
  every email goes to the snapshot's \<open>alertEmail\<close>, and its verdict and body are those of
  the snapshot's threshold.
\<close>

theorem firing_uses_snapshot:
  assumes "find_unique w1 = FindRow r1" and "find_unique w2 = FindRow r2"
    and "fetch w2 = fetch w1" and "send w2 = send w1"
  shows "map email_to (sends (events (fire ns cfg w1 t)))
         = map email_to (sends (events (fire ns cfg w2 t)))
     \<and> map email_subject (sends (events (fire ns cfg w1 t)))
         = map email_subject (sends (events (fire ns cfg w2 t)))
     \<and> list_all (\<lambda>m. email_to m = alertEmail (bound_alert t)) (sends (events (fire ns cfg w1 t)))
     \<and> (fetch_json (fetch w1) = Inr d \<and> currentAqiValue d = Inr aqi \<longrightarrow>
          list_all (\<lambda>m. (email_subject m = subject_high) = js_gt ns aqi (threshold (bound_alert t))
                       \<and> sublist (ns (threshold (bound_alert t))) (email_html m))
            (sends (events (fire ns cfg w1 t))))
     \<and> outcome (fire ns cfg w1 t) = outcome (fire ns cfg w2 t)"
proof -
  have sub: "subject (check_threshold ns u a x) = subject (check_threshold ns u' a x)" for u u' a x
    by (simp add: check_threshold_def)
  have trig: "(subject (check_threshold ns u a x) = subject_high) = js_gt ns x (threshold a)" for u a x
    using triggered_check_threshold [of ns u a x] by (simp add: triggered_def)
  have out: "outcome (fire ns cfg w1 t) = outcome (fire ns cfg w2 t)"
    using assms by (simp add: fire_def checkAqiAndSendAlert_def Let_def split: sum.splits)
  have a: "map email_to (sends (events (fire ns cfg w1 t)))
         = map email_to (sends (events (fire ns cfg w2 t)))"
    using assms by (simp add: fire_def sends_of_run alert_email_def split: sum.splits)
  have b: "map email_subject (sends (events (fire ns cfg w1 t)))
         = map email_subject (sends (events (fire ns cfg w2 t)))"
    using assms sub by (simp add: fire_def sends_of_run alert_email_def split: sum.splits)
  have c: "list_all (\<lambda>m. email_to m = alertEmail (bound_alert t)) (sends (events (fire ns cfg w1 t)))"
    using assms by (simp add: fire_def sends_of_run alert_email_def split: sum.splits)
  have e: "fetch_json (fetch w1) = Inr d \<and> currentAqiValue d = Inr aqi \<longrightarrow>
          list_all (\<lambda>m. (email_subject m = subject_high) = js_gt ns aqi (threshold (bound_alert t))
                       \<and> sublist (ns (threshold (bound_alert t))) (email_html m))
            (sends (events (fire ns cfg w1 t)))"
    using assms trig html_mentions_threshold
    by (simp add: fire_def sends_of_run alert_email_def)
  from a b c e out show ?thesis
    by blast
qed

text \<open>
  An instance: the row of the store now names the owner and carries another address;
  the email still goes to the address of the snapshot.
\<close>

theorem firing_uses_snapshot_witness:
  "map email_to (sends (events (fire integer_printer cfg_on world_150 task_100)))
     = map email_to (sends (events (fire integer_printer cfg_on
         (world_150\<lparr>find_unique := FindRow (AlertSel (Some (UserSel (Some ''Asha''))) (Some ''other@example.org''))\<rparr>)
         task_100)))
   \<and> list_all (\<lambda>m. email_to m = ''asha@example.org'' \<and> email_subject m = subject_high)
       (sends (events (fire integer_printer cfg_on world_150 task_100)))"
proof -
  let ?w2 = "world_150\<lparr>find_unique := FindRow (AlertSel (Some (UserSel (Some ''Asha''))) (Some ''other@example.org''))\<rparr>"
  have w: "find_unique world_150 = FindRow row_without_name"
    "find_unique ?w2 = FindRow (AlertSel (Some (UserSel (Some ''Asha''))) (Some ''other@example.org''))"
    "fetch ?w2 = fetch world_150" "send ?w2 = send world_150"
    by (simp_all add: world_150_def)
  have f: "fetch_json (fetch world_150) = Inr (payload (JNum (Fin 150)))"
    by (simp add: world_150_def)
  have d: "currentAqiValue (payload (JNum (Fin 150))) = Inr (JNum (Fin 150))"
    by (simp add: currentAqiValue_def payload_def and_then_def)
  have b: "alertEmail (bound_alert task_100) = ''asha@example.org''"
    "js_gt integer_printer (JNum (Fin 150)) (threshold (bound_alert task_100))"
    by (simp_all add: task_100_def rule_100_def js_gt_def)
  show ?thesis
    using firing_uses_snapshot [OF w, of integer_printer cfg_on task_100 "payload (JNum (Fin 150))" "JNum (Fin 150)"]
    by (simp add: f d b list_all_iff)
qed

section \<open>Properties of alert creation\<close>

lemma fields_of_body_with:
  "field (body_with v) ''alertTime'' = JStr ''08:00''"
  "field (body_with v) ''pollutant'' = JStr ''pm25''"
  "field (body_with v) ''threshold'' = v"
  "field (body_with v) ''alertEmail'' = JStr ''asha@example.org''"
  by (simp_all add: field_def body_with_def)

lemma post_alert_body_with:
  "truthy v \<Longrightarrow>
   post_alert ns accepts db_ok empty_system ''u1'' (body_with v)
     = (Reply 200 (AlertCreated (created_rule (parseFloat ns v))),
        \<lparr>store = [created_rule (parseFloat ns v)],
         registry = tasks (setupCronJobs accepts (FindManyRows [created_rule (parseFloat ns v)]) [])\<rparr>)"
  by (simp add: post_alert_def fields_of_body_with prisma_alert_create_def db_ok_def
      empty_system_def created_rule_def find_many_def Let_def)

lemma post_alert_accepted:
  assumes "post_alert ns accepts db st uid body = (Reply 200 (AlertCreated a), st')"
  shows "truthy (field body ''threshold'')"
    and "threshold a = parseFloat ns (field body ''threshold'')"
    and "store st' = store st @ [a]"
proof -
  have t: "truthy (field body ''threshold'')"
    using assms by (auto simp: post_alert_def Let_def split: if_splits)
  then show "truthy (field body ''threshold'')" .
  show "threshold a = parseFloat ns (field body ''threshold'')"
    using assms
    by (auto simp: post_alert_def Let_def prisma_alert_create_def
        split: if_splits sum.splits jsval.splits create_result.splits)
  show "store st' = store st @ [a]"
    using assms
    by (auto simp: post_alert_def Let_def split: if_splits sum.splits)
qed

lemma parseFloat_string_zero: "parseFloat_string ''0'' = Fin 0"
  by (simp add: parseFloat_string_def take_sign_def unsigned_decimal_prefix_def is_space_def
      is_digit_def exponent_part_def digits_value_def digit_val_def scale10_def)

text \<open>
  C9, as stated, fails: the number \<open>-5\<close> is truthy, \<open>parseFloat\<close> returns it, and the
  rule is created with the threshold \<open>-5\<close>.
\<close>

theorem negative_threshold_is_stored:
  "post_alert integer_printer accept_all db_ok empty_system ''u1'' (body_with (JNum (Fin (- 5))))
     = (Reply 200 (AlertCreated (created_rule (Fin (- 5)))),
        \<lparr>store = [created_rule (Fin (- 5))], registry = [new_task (created_rule (Fin (- 5)))]\<rparr>)
   \<and> threshold (created_rule (Fin (- 5))) = Fin (- 5)"
proof -
  have "tasks (setupCronJobs accept_all (FindManyRows [created_rule (Fin (- 5))]) [])
      = [new_task (created_rule (Fin (- 5)))]"
    by (simp add: setupCronJobs_def accept_all_def)
  then show ?thesis
    by (simp add: post_alert_body_with) (simp add: created_rule_def)
qed

text \<open>
  C9, amended. For every request the handler answers with the created alert, the
  threshold field of the request is truthy and the stored threshold is \<open>parseFloat\<close> of
  it; for a field that is a Number the stored threshold is that Number, which is neither
  \<open>NaN\<close> nor 0. Nothing checks its sign or that it is finite.
\<close>

theorem stored_threshold_is_parsed_field:
  assumes "post_alert ns accepts db st uid body = (Reply 200 (AlertCreated a), st')"
  shows "truthy (field body ''threshold'')
     \<and> threshold a = parseFloat ns (field body ''threshold'')
     \<and> store st' = store st @ [a]
     \<and> (field body ''threshold'' = JNum n \<longrightarrow> threshold a = n \<and> n \<noteq> NaN \<and> n \<noteq> Fin 0)"
  using post_alert_accepted [OF assms] by auto

text \<open>
  An instance: the request with the threshold \<open>-5\<close>.
\<close>

theorem stored_threshold_is_parsed_field_witness:
  "truthy (field (body_with (JNum (Fin (- 5)))) ''threshold'')
   \<and> threshold (created_rule (Fin (- 5))) = parseFloat integer_printer (JNum (Fin (- 5)))
   \<and> Fin (- 5) \<noteq> Fin 0"
proof -
  have "post_alert integer_printer accept_all db_ok empty_system ''u1'' (body_with (JNum (Fin (- 5))))
     = (Reply 200 (AlertCreated (created_rule (Fin (- 5)))),
        \<lparr>store = [created_rule (Fin (- 5))],
         registry = tasks (setupCronJobs accept_all (FindManyRows [created_rule (Fin (- 5))]) [])\<rparr>)"
    by (simp add: post_alert_body_with)
  from stored_threshold_is_parsed_field [OF this, of "Fin (- 5)"] show ?thesis
    by (simp add: fields_of_body_with)
qed

text \<open>
  C10, as stated, fails in its conclusion: the string \<open>"0"\<close> is truthy and
  \<open>parseFloat\<close> reads it as 0, so a rule with the threshold 0 is created.
\<close>

theorem string_zero_threshold_is_stored:
  "truthy (JStr ''0'')
   \<and> post_alert integer_printer accept_all db_ok empty_system ''u1'' (body_with (JStr ''0''))
     = (Reply 200 (AlertCreated (created_rule (Fin 0))),
        \<lparr>store = [created_rule (Fin 0)], registry = [new_task (created_rule (Fin 0))]\<rparr>)
   \<and> threshold (created_rule (Fin 0)) = Fin 0"
proof -
  have p: "parseFloat integer_printer (JStr ''0'') = Fin 0"
    by (simp add: parseFloat_string_zero)
  have t: "tasks (setupCronJobs accept_all (FindManyRows [created_rule (Fin 0)]) [])
      = [new_task (created_rule (Fin 0))]"
    by (simp add: setupCronJobs_def accept_all_def)
  have "truthy (JStr ''0'')"
    by simp
  moreover from this have "post_alert integer_printer accept_all db_ok empty_system ''u1'' (body_with (JStr ''0''))
     = (Reply 200 (AlertCreated (created_rule (Fin 0))),
        \<lparr>store = [created_rule (Fin 0)], registry = [new_task (created_rule (Fin 0))]\<rparr>)"
    using post_alert_body_with [of "JStr ''0''" integer_printer accept_all] unfolding p t by simp
  moreover have "threshold (created_rule (Fin 0)) = Fin 0"
    by (simp add: created_rule_def)
  ultimately show ?thesis
    by blast
qed

text \<open>
  C10, amended. A request whose threshold field is falsy (the number 0 and the empty
  string are) is answered with status 400 and the missing-details error, and neither
  the store nor the registry changes. The string \<open>"0"\<close> is not falsy, and \<open>parseFloat\<close>
  reads it as 0.
\<close>

theorem falsy_threshold_is_rejected:
  "(\<not> truthy (field body ''threshold'') \<longrightarrow>
      post_alert ns accepts db st uid body
        = (Reply 400 (ErrorBody ''Missing required alert details (Time, Pollutant, Threshold, Email).''), st))
   \<and> \<not> truthy (JNum (Fin 0)) \<and> \<not> truthy (JStr [])
   \<and> truthy (JStr ''0'') \<and> parseFloat ns (JStr ''0'') = Fin 0"
  by (simp add: post_alert_def parseFloat_string_zero)

text \<open>
  An instance: the request with the number 0 as threshold.
\<close>

theorem falsy_threshold_is_rejected_witness:
  "post_alert integer_printer accept_all db_ok empty_system ''u1'' (body_with (JNum (Fin 0)))
     = (Reply 400 (ErrorBody ''Missing required alert details (Time, Pollutant, Threshold, Email).''),
        empty_system)"
  using falsy_threshold_is_rejected
    [of "body_with (JNum (Fin 0))" integer_printer accept_all db_ok empty_system "''u1''"]
  by (simp add: fields_of_body_with)

end
